theory Spec2Isabelle
  imports Main
begin

section \<open>JavaScript values and errors\<close>

text \<open>
  The request adapter handles values of unknown shape: the body left by an upstream
  middleware, what \<^verbatim>\<open>JSON.parse\<close> returns, the properties of the body mapping.
  \<open>jsval\<close> holds the values the code can tell apart with \<^verbatim>\<open>typeof\<close>,
  \<^verbatim>\<open>instanceof Buffer\<close> and truthiness. An object is the list of its own
  properties (the first entry of a name is the property). The payload of a number is never
  inspected by the code beyond being zero or not.
\<close>

datatype jsval =
    JUndefined
  | JNull
  | JBool bool
  | JNum int
  | JStr string
  | JArr "jsval list"
  | JObj "(string \<times> jsval) list"
  | JBuffer string

fun typeof :: "jsval \<Rightarrow> string" where
  "typeof JUndefined = ''undefined''"
| "typeof JNull = ''object''"
| "typeof (JBool b) = ''boolean''"
| "typeof (JNum n) = ''number''"
| "typeof (JStr s) = ''string''"
| "typeof (JArr xs) = ''object''"
| "typeof (JObj kvs) = ''object''"
| "typeof (JBuffer bs) = ''object''"

fun instanceofBuffer :: "jsval \<Rightarrow> bool" where
  "instanceofBuffer (JBuffer bs) = True"
| "instanceofBuffer v = False"

text \<open>Truthiness: what \<^verbatim>\<open>if (v)\<close> and \<^verbatim>\<open>!v\<close> test.\<close>

fun truthy :: "jsval \<Rightarrow> bool" where
  "truthy JUndefined = False"
| "truthy JNull = False"
| "truthy (JBool b) = b"
| "truthy (JNum n) = (n \<noteq> 0)"
| "truthy (JStr s) = (s \<noteq> [])"
| "truthy (JArr xs) = True"
| "truthy (JObj kvs) = True"
| "truthy (JBuffer bs) = True"

text \<open>
  A thrown value. \<open>HttpError s m\<close> is what \<^verbatim>\<open>httpError(s, m)\<close> creates: an error
  with a \<^verbatim>\<open>status\<close> property. \<open>CharsetError s c\<close> is the error of status \<open>s\<close>
  whose message is \<^verbatim>\<open>Unsupported charset "${c.toUpperCase()}".\<close> for the charset
  \<open>c\<close>: the capitals of \<open>c\<close> are the runtime's to print (they need not be Latin-1
  characters), and the model keeps \<open>c\<close> as the code has it. \<open>PlainError m\<close> is any other
  error (a \<^verbatim>\<open>new Error(m)\<close>, a TypeError, an error of the GraphQL engine): it has no
  status.
\<close>

datatype error = HttpError nat string | CharsetError nat string | PlainError string

definition httpError :: "nat \<Rightarrow> string \<Rightarrow> error" where
  "httpError s m = HttpError s m"

fun error_status :: "error \<Rightarrow> nat option" where
  "error_status (HttpError s m) = Some s"
| "error_status (CharsetError s c) = Some s"
| "error_status (PlainError m) = None"

text \<open>
  Reading a property \<^verbatim>\<open>v.k\<close>, for the names the adapter reads (\<open>query\<close>,
  \<open>variables\<close>, \<open>operationName\<close>, \<open>raw\<close>, none of which is inherited from a
  prototype): on \<^verbatim>\<open>null\<close> and \<^verbatim>\<open>undefined\<close> it throws a TypeError, on an
  object it is the property or \<^verbatim>\<open>undefined\<close>, on anything else \<^verbatim>\<open>undefined\<close>.
\<close>

fun getProp :: "jsval \<Rightarrow> string \<Rightarrow> error + jsval" where
  "getProp JUndefined k = Inl (PlainError ''TypeError: cannot read properties of undefined'')"
| "getProp JNull k = Inl (PlainError ''TypeError: cannot read properties of null'')"
| "getProp (JObj kvs) k = Inr (case map_of kvs k of Some v \<Rightarrow> v | None \<Rightarrow> JUndefined)"
| "getProp v k = Inr JUndefined"

section \<open>Strings\<close>

text \<open>
  A character of a header is a Latin-1 code unit, from 0 to 255: the server decodes the
  bytes of a header so. \<^verbatim>\<open>toLowerCase\<close> maps the capitals among them to their small
  letters, which are Latin-1 too: \<^verbatim>\<open>A\<close> to \<^verbatim>\<open>Z\<close>, and the accented capitals
  from 0xC0 to 0xDE but for the multiplication sign 0xD7. It leaves every other character.
  The text of a body is not looked into by the adapter, but for the spaces and the brace it
  may open with.
\<close>

definition upperLetters :: string where
  "upperLetters =
     ''ABCDEFGHIJKLMNOPQRSTUVWXYZ'' @
     [CHR 0xC0, CHR 0xC1, CHR 0xC2, CHR 0xC3, CHR 0xC4, CHR 0xC5, CHR 0xC6, CHR 0xC7,
      CHR 0xC8, CHR 0xC9, CHR 0xCA, CHR 0xCB, CHR 0xCC, CHR 0xCD, CHR 0xCE, CHR 0xCF,
      CHR 0xD0, CHR 0xD1, CHR 0xD2, CHR 0xD3, CHR 0xD4, CHR 0xD5, CHR 0xD6,
      CHR 0xD8, CHR 0xD9, CHR 0xDA, CHR 0xDB, CHR 0xDC, CHR 0xDD, CHR 0xDE]"

definition lowerLetters :: string where
  "lowerLetters =
     ''abcdefghijklmnopqrstuvwxyz'' @
     [CHR 0xE0, CHR 0xE1, CHR 0xE2, CHR 0xE3, CHR 0xE4, CHR 0xE5, CHR 0xE6, CHR 0xE7,
      CHR 0xE8, CHR 0xE9, CHR 0xEA, CHR 0xEB, CHR 0xEC, CHR 0xED, CHR 0xEE, CHR 0xEF,
      CHR 0xF0, CHR 0xF1, CHR 0xF2, CHR 0xF3, CHR 0xF4, CHR 0xF5, CHR 0xF6,
      CHR 0xF8, CHR 0xF9, CHR 0xFA, CHR 0xFB, CHR 0xFC, CHR 0xFD, CHR 0xFE]"

definition toLowerChar :: "char \<Rightarrow> char" where
  "toLowerChar c = (case map_of (zip upperLetters lowerLetters) c of Some l \<Rightarrow> l | None \<Rightarrow> c)"

definition toLowerCase :: "string \<Rightarrow> string" where
  "toLowerCase s = map toLowerChar s"

definition startsWith :: "string \<Rightarrow> string \<Rightarrow> bool" where
  "startsWith s p = (take (length p) s = p)"

text \<open>A text between double quotes, as the error messages print it.\<close>

definition quoted :: "string \<Rightarrow> string" where
  "quoted s = CHR 0x22 # s @ [CHR 0x22]"

section \<open>The platform\<close>

text \<open>
  What the adapter calls but does not define: the parsers of the runtime and of the
  libraries \<^verbatim>\<open>content-type\<close>, \<^verbatim>\<open>querystring\<close>, \<^verbatim>\<open>raw-body\<close> and
  \<^verbatim>\<open>zlib\<close>. Each is a parameter of the model, so that every theorem holds for
  whatever these functions compute.
\<close>

record ParsedMediaType =
  mtype :: string
  parameters :: "string \<Rightarrow> string option"

text \<open>
  The stream handed to \<^verbatim>\<open>getBody\<close>: the request itself, or the request piped
  through a decompressor.
\<close>

datatype stream = Identity string | Inflate string | Gunzip string

text \<open>
  An error of \<^verbatim>\<open>raw-body\<close>, seen through \<^verbatim>\<open>httpError(400, rawError)\<close>:
  \<open>wrapped_status\<close> is the status that wrapper reports, \<open>etype\<close> and \<open>emessage\<close>
  are the error's \<^verbatim>\<open>type\<close> and \<^verbatim>\<open>message\<close>.
\<close>

record raw_error =
  wrapped_status :: nat
  etype :: string
  emessage :: string

text \<open>
  The result as it is sent: \<open>JUndefined\<close> is a field that is not there, and
  \<open>None\<close> a result with no \<^verbatim>\<open>errors\<close> field.
\<close>

record FormattedExecutionResult =
  fdata :: jsval
  ferrors :: "jsval list option"
  fextensions :: jsval

record platform =
  JSON_parse :: "string \<Rightarrow> jsval option"
  JSON_stringify :: "FormattedExecutionResult \<Rightarrow> nat \<Rightarrow> string"
  querystring_parse :: "string \<Rightarrow> jsval"
  URLSearchParams :: "string option \<Rightarrow> (string \<times> string) list"
  contentType_parse :: "string \<Rightarrow> error + ParsedMediaType"
  getBody :: "stream \<Rightarrow> string \<Rightarrow> string option \<Rightarrow> nat \<Rightarrow> raw_error + string"

text \<open>\<^verbatim>\<open>urlData.get(k)\<close>: the value of the first pair named \<open>k\<close>, or null.\<close>

definition usp_get :: "(string \<times> string) list \<Rightarrow> string \<Rightarrow> string option" where
  "usp_get urlData k = map_of urlData k"

section \<open>The request\<close>

record request =
  url :: "string option"
  content_type :: "string option"
  content_encoding :: "string option"
  content_length :: "string option"
  payload :: string

section \<open>parse-body.ts\<close>

text \<open>Return a decompressed stream, given an encoding.\<close>

definition decompressed :: "request \<Rightarrow> string \<Rightarrow> error + stream" where
  "decompressed req encoding =
     (if encoding = ''identity'' then Inr (Identity (payload req))
      else if encoding = ''deflate'' then Inr (Inflate (payload req))
      else if encoding = ''gzip'' then Inr (Gunzip (payload req))
      else Inl (httpError 415 (''Unsupported content-encoding '' @ quoted encoding @ ''.'')))"

text \<open>
  \<^verbatim>\<open>jsonObjRegex = /^[ \t\n\r]*\{/u\<close>: an opening brace as the first character after
  any run of space, tab, line feed and carriage return.
\<close>

definition json_space :: "char \<Rightarrow> bool" where
  "json_space c = (c = CHR '' '' \<or> c = CHR 0x09 \<or> c = CHR 0x0A \<or> c = CHR 0x0D)"

fun jsonObjRegex_test :: "string \<Rightarrow> bool" where
  "jsonObjRegex_test [] = False"
| "jsonObjRegex_test (c # cs) =
     (if json_space c then jsonObjRegex_test cs else c = CHR ''{'')"

text \<open>The local constants of \<^verbatim>\<open>readBody\<close>.\<close>

definition readBody_charset :: "ParsedMediaType \<Rightarrow> string" where
  "readBody_charset typeInfo =
     (case parameters typeInfo ''charset'' of Some c \<Rightarrow> toLowerCase c | None \<Rightarrow> ''utf-8'')"

definition readBody_encoding :: "request \<Rightarrow> string" where
  "readBody_encoding req =
     (case content_encoding req of Some e \<Rightarrow> toLowerCase e | None \<Rightarrow> ''identity'')"

definition readBody_length :: "request \<Rightarrow> string option" where
  "readBody_length req =
     (if readBody_encoding req = ''identity'' then content_length req else None)"

definition readBody_limit :: nat where
  "readBody_limit = 100 * 1024"

text \<open>Read and decode a request body.\<close>

definition readBody :: "platform \<Rightarrow> request \<Rightarrow> ParsedMediaType \<Rightarrow> error + string" where
  "readBody pf req typeInfo =
     (let charset = readBody_charset typeInfo in
      if \<not> startsWith charset ''utf-''
      then Inl (CharsetError 415 charset)
      else
        (case decompressed req (readBody_encoding req) of
           Inl e \<Rightarrow> Inl e
         | Inr stream \<Rightarrow>
             (case getBody pf stream charset (readBody_length req) readBody_limit of
                Inr text \<Rightarrow> Inr text
              | Inl rawError \<Rightarrow>
                  Inl (if etype rawError = ''encoding.unsupported''
                       then CharsetError (wrapped_status rawError) charset
                       else HttpError (wrapped_status rawError)
                              (''Invalid body: '' @ emessage rawError @ ''.'')))))"

text \<open>
  \<^verbatim>\<open>parseBody(req, body)\<close>: the body mapping of a request, \<open>body\<close> being what an
  upstream middleware left (\<open>JUndefined\<close> when there is none).
\<close>

definition parseBody :: "platform \<Rightarrow> request \<Rightarrow> jsval \<Rightarrow> error + jsval" where
  "parseBody pf req body =
     (if typeof body = ''object'' \<and> \<not> instanceofBuffer body
      then Inr (if body = JNull then JObj [] else body)
      else
        (case content_type req of
           None \<Rightarrow> Inr (JObj [])
         | Some header \<Rightarrow>
             (case contentType_parse pf header of
                Inl e \<Rightarrow> Inl e
              | Inr typeInfo \<Rightarrow>
                  if typeof body = ''string'' \<and> mtype typeInfo = ''application/graphql''
                  then Inr (JObj [(''query'', body)])
                  else if truthy body then Inr (JObj [])
                  else
                    (case readBody pf req typeInfo of
                       Inl e \<Rightarrow> Inl e
                     | Inr rawBody \<Rightarrow>
                         if mtype typeInfo = ''application/graphql''
                         then Inr (JObj [(''query'', JStr rawBody)])
                         else if mtype typeInfo = ''application/json''
                         then
                           (if jsonObjRegex_test rawBody
                            then (case JSON_parse pf rawBody of
                                    Some v \<Rightarrow> Inr v
                                  | None \<Rightarrow> Inl (httpError 400 ''POST body sent invalid JSON.''))
                            else Inl (httpError 400 ''POST body sent invalid JSON.''))
                         else if mtype typeInfo = ''application/x-www-form-urlencoded''
                         then Inr (querystring_parse pf rawBody)
                         else Inr (JObj [])))))"

section \<open>graphql-param.ts\<close>

record GraphQLParams =
  query :: "string option"
  variables :: jsval
  operationName :: "string option"
  raw :: bool

text \<open>
  \<^verbatim>\<open>request.url?.split("?")[1]\<close>: the text between the first and the second question
  mark, \<^verbatim>\<open>undefined\<close> when the URL has none.
\<close>

definition url_query :: "string option \<Rightarrow> string option" where
  "url_query u =
     (case u of
        None \<Rightarrow> None
      | Some s \<Rightarrow>
          (case dropWhile (\<lambda>c. c \<noteq> CHR ''?'') s of
             [] \<Rightarrow> None
           | q # rest \<Rightarrow> Some (takeWhile (\<lambda>c. c \<noteq> CHR ''?'') rest)))"

text \<open>
  \<^verbatim>\<open>urlData.get(k) ?? bodyData[k]\<close>: the body is read only when the query string has
  no pair named \<open>k\<close>.
\<close>

definition urlOrBody :: "(string \<times> string) list \<Rightarrow> jsval \<Rightarrow> string \<Rightarrow> error + jsval" where
  "urlOrBody urlData bodyData k =
     (case usp_get urlData k of Some s \<Rightarrow> Inr (JStr s) | None \<Rightarrow> getProp bodyData k)"

text \<open>\<^verbatim>\<open>if (typeof v !== "string") v = null\<close>.\<close>

definition stringOrNull :: "jsval \<Rightarrow> string option" where
  "stringOrNull v = (case v of JStr s \<Rightarrow> Some s | _ \<Rightarrow> None)"

text \<open>Sequencing of steps that may throw.\<close>

definition andThen :: "error + 'a \<Rightarrow> ('a \<Rightarrow> error + 'b) \<Rightarrow> error + 'b" where
  "andThen m f = (case m of Inl e \<Rightarrow> Inl e | Inr x \<Rightarrow> f x)"

text \<open>Parse the variables if needed.\<close>

definition parseVariables :: "platform \<Rightarrow> jsval \<Rightarrow> error + jsval" where
  "parseVariables pf v =
     (if typeof v = ''string''
      then (case v of
              JStr s \<Rightarrow>
                (case JSON_parse pf s of
                   Some parsed \<Rightarrow> Inr parsed
                 | None \<Rightarrow> Inl (httpError 400 ''Variables are invalid JSON.''))
            | _ \<Rightarrow> Inr v)
      else if typeof v \<noteq> ''object'' then Inr JNull
      else Inr v)"

definition getGraphQLParams :: "platform \<Rightarrow> request \<Rightarrow> jsval \<Rightarrow> error + GraphQLParams" where
  "getGraphQLParams pf req body =
     (let urlData = URLSearchParams pf (url_query (url req)) in
      andThen (parseBody pf req body) (\<lambda>bodyData.
      andThen (urlOrBody urlData bodyData ''query'') (\<lambda>query0.
      andThen (urlOrBody urlData bodyData ''variables'') (\<lambda>variables0.
      andThen (parseVariables pf variables0) (\<lambda>variables1.
      andThen (urlOrBody urlData bodyData ''operationName'') (\<lambda>operationName0.
      andThen (if usp_get urlData ''raw'' \<noteq> None then Inr True
               else andThen (getProp bodyData ''raw'') (\<lambda>r. Inr (r \<noteq> JUndefined))) (\<lambda>raw0.
      Inr \<lparr> query = stringOrNull query0,
            variables = variables1,
            operationName = stringOrNull operationName0,
            raw = raw0 \<rparr>)))))))"

section \<open>The Koa context and the GraphQL engine\<close>

text \<open>
  The response so far: its status (404 until something sets it), its headers, its
  content type and its body. The body is the result itself, or its indented JSON text
  when \<^verbatim>\<open>pretty\<close> is set.
\<close>

datatype payload = PrettyText string | Plain FormattedExecutionResult

record response =
  status :: nat
  headers :: "string \<Rightarrow> string option"
  rtype :: "string option"
  rbody :: "payload option"

definition setHeader :: "response \<Rightarrow> string \<Rightarrow> string \<Rightarrow> response" where
  "setHeader r k v = r\<lparr>headers := (headers r)(k \<mapsto> v)\<rparr>"

record Context =
  request_method :: string
  req :: request
  body :: jsval
  response :: response

text \<open>
  \<^verbatim>\<open>ExecutionResult\<close> of the engine: \<open>data\<close> and \<open>extensions\<close> are
  \<open>JUndefined\<close> when the field is not there, \<open>errors\<close> is \<open>None\<close> then.
\<close>

record ExecutionResult =
  data :: jsval
  errors :: "error list option"
  extensions :: jsval

record 'd RequestInfo =
  info_document :: "'d option"
  info_variables :: jsval
  info_operationName :: "string option"
  info_result :: ExecutionResult
  info_context :: Context

datatype source = Source string string

text \<open>
  The GraphQL engine, a parameter of the model: \<open>'s\<close> is its schemas, \<open>'d\<close> its
  documents, \<open>'r\<close> its validation rules, \<open>'v\<close> the root values and \<open>'f\<close> the
  field resolvers. \<open>getOperationAST\<close> gives the \<^verbatim>\<open>operation\<close> of the node it
  finds (\<^verbatim>\<open>query\<close>, \<^verbatim>\<open>mutation\<close> or \<^verbatim>\<open>subscription\<close>), \<open>None\<close> when it
  finds none.
\<close>

record ('s, 'd, 'r, 'v, 'f) engine =
  validateSchema :: "'s \<Rightarrow> error list"
  parse :: "source \<Rightarrow> error + 'd"
  specifiedRules :: "'r list"
  validate :: "'s \<Rightarrow> 'd \<Rightarrow> 'r list \<Rightarrow> error list"
  getOperationAST :: "'d \<Rightarrow> string option \<Rightarrow> string option"
  execute :: "'s \<Rightarrow> 'd \<Rightarrow> 'v \<Rightarrow> Context \<Rightarrow> jsval \<Rightarrow> string option \<Rightarrow> 'f \<Rightarrow> error + ExecutionResult"
  formatError :: "error \<Rightarrow> jsval"

section \<open>option.ts\<close>

text \<open>
  \<open>schema\<close> is \<open>None\<close> when the options hold no schema, \<open>validationRules\<close> when they
  hold no rules; \<open>opt_formatError\<close> and \<open>opt_extensions\<close> are the caller's functions
  \<^verbatim>\<open>formatError\<close> and \<^verbatim>\<open>extensions\<close>. The formatter is total; the extensions
  function may throw.
\<close>

record ('s, 'd, 'r, 'v, 'f) OptionsData =
  schema :: "'s option"
  rootValue :: 'v
  pretty :: bool
  opt_formatError :: "(error \<Rightarrow> Context \<Rightarrow> jsval) option"
  validationRules :: "'r list option"
  opt_extensions :: "('d RequestInfo \<Rightarrow> error + jsval) option"
  fieldResolver :: 'f

text \<open>
  The options are a value or a function of the context. Either gives, once awaited, an
  options object (\<open>Inr (Some d)\<close>), something that is not an object (\<open>Inr None\<close>), or
  throws (\<open>Inl e\<close>).
\<close>

datatype ('s, 'd, 'r, 'v, 'f) Options =
    OptionsValue "error + ('s, 'd, 'r, 'v, 'f) OptionsData option"
  | OptionsFunction "Context \<Rightarrow> error + ('s, 'd, 'r, 'v, 'f) OptionsData option"

definition parseOptions ::
  "('s, 'd, 'r, 'v, 'f) Options \<Rightarrow> Context \<Rightarrow> error + ('s, 'd, 'r, 'v, 'f) OptionsData" where
  "parseOptions opts ctx =
     andThen (case opts of OptionsFunction f \<Rightarrow> f ctx | OptionsValue v \<Rightarrow> v) (\<lambda>optionsData.
       case optionsData of
         None \<Rightarrow>
           Inl (PlainError
             (''GraphQL middleware option function must return an options object '' @
              ''or a promise which will be resolved to an options object.''))
       | Some d \<Rightarrow> Inr d)"

section \<open>parse-query.ts\<close>

record 'd Result =
  result :: ExecutionResult
  document :: "'d option"

definition errorsOnly :: "error list \<Rightarrow> ExecutionResult" where
  "errorsOnly es = \<lparr> data = JUndefined, errors = Some es, extensions = JUndefined \<rparr>"

text \<open>
  \<^verbatim>\<open>parseQuery(data, params, ctx)\<close>: what it returns or throws, and the response as it
  leaves it. A missing schema is refused by the engine's \<^verbatim>\<open>validateSchema\<close>, which
  throws; the middleware never calls \<open>parseQuery\<close> without one.
\<close>

definition parseQuery ::
  "('s, 'd, 'r, 'v, 'f) engine \<Rightarrow> ('s, 'd, 'r, 'v, 'f) OptionsData \<Rightarrow> GraphQLParams \<Rightarrow> Context
     \<Rightarrow> (error + 'd Result) \<times> response" where
  "parseQuery en dat params ctx =
     (let resp = response ctx in
      case query params of
        None \<Rightarrow> (Inl (httpError 400 ''Must provide query string.''), resp)
      | Some q \<Rightarrow>
          if q = [] then (Inl (httpError 400 ''Must provide query string.''), resp)
          else
            (case schema dat of
               None \<Rightarrow> (Inl (PlainError ''Expected undefined to be a GraphQL schema.''), resp)
             | Some sch \<Rightarrow>
                 let schemaValidationErrors = validateSchema en sch in
                 if length schemaValidationErrors > 0
                 then (Inr \<lparr> result = errorsOnly schemaValidationErrors, document = None \<rparr>,
                       resp\<lparr>status := 500\<rparr>)
                 else
                   (case parse en (Source q ''GraphQL request'') of
                      Inl syntaxError \<Rightarrow>
                        (Inr \<lparr> result = errorsOnly [syntaxError], document = None \<rparr>,
                         resp\<lparr>status := 400\<rparr>)
                    | Inr doc \<Rightarrow>
                        let rules = specifiedRules en @
                                    (case validationRules dat of None \<Rightarrow> [] | Some rs \<Rightarrow> rs);
                            validationErrors = validate en sch doc rules in
                        if length validationErrors > 0
                        then (Inr \<lparr> result = errorsOnly validationErrors, document = None \<rparr>,
                              resp\<lparr>status := 400\<rparr>)
                        else
                          (case (if request_method ctx = ''GET''
                                 then (case getOperationAST en doc (operationName params) of
                                         None \<Rightarrow> None
                                       | Some operation \<Rightarrow>
                                           if operation \<noteq> ''query'' then Some operation else None)
                                 else None) of
                             Some operation \<Rightarrow>
                               (Inl (httpError 405
                                      (''Can only perform a '' @ operation @
                                       '' operation from a POST request.'')),
                                setHeader resp ''Allow'' ''POST'')
                           | None \<Rightarrow>
                               (case execute en sch doc (rootValue dat) ctx (variables params)
                                       (operationName params) (fieldResolver dat) of
                                  Inr res \<Rightarrow>
                                    (Inr \<lparr> result = res, document = Some doc \<rparr>,
                                     resp\<lparr>status := 200\<rparr>)
                                | Inl contextError \<Rightarrow>
                                    (Inr \<lparr> result = errorsOnly [contextError], document = None \<rparr>,
                                     resp\<lparr>status := 400\<rparr>))))))"

section \<open>index.ts\<close>

text \<open>\<^verbatim>\<open>error.status || 500\<close>.\<close>

definition statusOr500 :: "error \<Rightarrow> nat" where
  "statusOr500 e = (case error_status e of None \<Rightarrow> 500 | Some s \<Rightarrow> if s = 0 then 500 else s)"

text \<open>
  The \<^verbatim>\<open>try\<close> block: the parameters of the request, the query, and the caller's
  extensions on its result. It ends with a result or with the error thrown, and the
  response as it stands then.
\<close>

definition tryBlock ::
  "('s, 'd, 'r, 'v, 'f) engine \<Rightarrow> platform \<Rightarrow> ('s, 'd, 'r, 'v, 'f) OptionsData \<Rightarrow> Context
     \<Rightarrow> (error + ExecutionResult) \<times> response" where
  "tryBlock en pf dat ctx =
     (case getGraphQLParams pf (req ctx) (body ctx) of
        Inl e \<Rightarrow> (Inl e, response ctx)
      | Inr params \<Rightarrow>
          (case parseQuery en dat params ctx of
             (Inl e, resp) \<Rightarrow> (Inl e, resp)
           | (Inr q, resp) \<Rightarrow>
               (case opt_extensions dat of
                  None \<Rightarrow> (Inr (result q), resp)
                | Some extensionsFn \<Rightarrow>
                    (case extensionsFn
                            \<lparr> info_document = document q,
                              info_variables = variables params,
                              info_operationName = operationName params,
                              info_result = result q,
                              info_context = ctx\<lparr>response := resp\<rparr> \<rparr> of
                       Inl e \<Rightarrow> (Inl e, resp)
                     | Inr ext \<Rightarrow>
                         (Inr (if truthy ext \<and> typeof ext = ''object''
                               then (result q)\<lparr>extensions := ext\<rparr>
                               else result q),
                          resp)))))"

text \<open>
  The \<^verbatim>\<open>catch\<close> block: the error becomes the result, its status (or 500) the
  status of the response.
\<close>

definition tryCatch ::
  "('s, 'd, 'r, 'v, 'f) engine \<Rightarrow> platform \<Rightarrow> ('s, 'd, 'r, 'v, 'f) OptionsData \<Rightarrow> Context
     \<Rightarrow> ExecutionResult \<times> response" where
  "tryCatch en pf dat ctx =
     (case tryBlock en pf dat ctx of
        (Inr res, resp) \<Rightarrow> (res, resp)
      | (Inl e, resp) \<Rightarrow> (errorsOnly [e], resp\<lparr>status := statusOr500 e\<rparr>))"

text \<open>
  After the \<^verbatim>\<open>try\<close>: a status of 200 with no data becomes 500, the errors are
  formatted, and the payload is set as the body.
\<close>

definition escalate :: "ExecutionResult \<Rightarrow> response \<Rightarrow> response" where
  "escalate res resp =
     (if status resp = 200 \<and> \<not> truthy (data res) then resp\<lparr>status := 500\<rparr> else resp)"

definition formatErrors ::
  "('s, 'd, 'r, 'v, 'f) engine \<Rightarrow> ('s, 'd, 'r, 'v, 'f) OptionsData \<Rightarrow> Context \<Rightarrow> ExecutionResult
     \<Rightarrow> FormattedExecutionResult" where
  "formatErrors en dat ctx res =
     \<lparr> fdata = data res,
       ferrors =
         (case errors res of
            None \<Rightarrow> None
          | Some es \<Rightarrow>
              Some (map (\<lambda>err. case opt_formatError dat of
                                  Some formatErrorFn \<Rightarrow> formatErrorFn err ctx
                                | None \<Rightarrow> formatError en err) es)),
       fextensions = extensions res \<rparr>"

definition respond ::
  "('s, 'd, 'r, 'v, 'f) engine \<Rightarrow> platform \<Rightarrow> ('s, 'd, 'r, 'v, 'f) OptionsData \<Rightarrow> Context
     \<Rightarrow> ExecutionResult \<Rightarrow> response \<Rightarrow> response" where
  "respond en pf dat ctx res resp =
     (let resp1 = escalate res resp;
          formatted = formatErrors en dat (ctx\<lparr>response := resp1\<rparr>) res;
          payload = (if pretty dat then PrettyText (JSON_stringify pf formatted 2)
                     else Plain formatted)
      in resp1\<lparr>rtype := Some ''application/json'', rbody := Some payload\<rparr>)"

text \<open>
  The middleware: the error it throws, if it throws, and the response. It hands over to
  the next middleware once the body is set; the model ends there.
\<close>

definition middleware ::
  "('s, 'd, 'r, 'v, 'f) engine \<Rightarrow> platform \<Rightarrow> ('s, 'd, 'r, 'v, 'f) Options \<Rightarrow> Context
     \<Rightarrow> error option \<times> response" where
  "middleware en pf options ctx =
     (if request_method ctx \<noteq> ''GET'' \<and> request_method ctx \<noteq> ''POST''
      then (Some (httpError 405 ''GraphQL only supports GET and POST requests.''),
            setHeader (response ctx) ''Allow'' ''GET, POST'')
      else
        (case parseOptions options ctx of
           Inl e \<Rightarrow> (Some e, response ctx)
         | Inr dat \<Rightarrow>
             (case schema dat of
                None \<Rightarrow>
                  (Some (PlainError ''GraphQL middleware options must contain a schema.''),
                   response ctx)
              | Some sch \<Rightarrow>
                  (case tryCatch en pf dat ctx of
                     (res, resp) \<Rightarrow> (None, respond en pf dat ctx res resp)))))"

definition graphqlHTTP ::
  "('s, 'd, 'r, 'v, 'f) engine \<Rightarrow> platform \<Rightarrow> ('s, 'd, 'r, 'v, 'f) Options option
     \<Rightarrow> error + (Context \<Rightarrow> error option \<times> response)" where
  "graphqlHTTP en pf options =
     (case options of
        None \<Rightarrow> Inl (PlainError ''GraphQL middleware requires options.'')
      | Some opts \<Rightarrow> Inr (middleware en pf opts))"

section \<open>The spec's words\<close>

text \<open>
  The spec (4.1): the charset name starts with \<^verbatim>\<open>utf-\<close>, case-insensitively.
\<close>

definition spec_utf_charset :: "string \<Rightarrow> bool" where
  "spec_utf_charset cs =
     (case cs of
        a # b # c # d # rest \<Rightarrow>
          (a = CHR ''u'' \<or> a = CHR ''U'') \<and> (b = CHR ''t'' \<or> b = CHR ''T'') \<and>
          (c = CHR ''f'' \<or> c = CHR ''F'') \<and> d = CHR ''-''
      | _ \<Rightarrow> False)"

text \<open>
  The spec (4.2): the first character that is not a space, a tab, a line feed or a
  carriage return is an opening brace.
\<close>

definition spec_starts_with_brace :: "string \<Rightarrow> bool" where
  "spec_starts_with_brace s =
     (\<exists>ws rest. s = ws @ CHR ''{'' # rest \<and>
        set ws \<subseteq> {CHR '' '', CHR 0x09, CHR 0x0A, CHR 0x0D})"

section \<open>A sample platform and a sample engine\<close>

text \<open>
  Instances of the two parameters, small enough to evaluate the examples by hand. The
  sample \<^verbatim>\<open>JSON.parse\<close> knows two texts, \<^verbatim>\<open>{}\<close> (the empty object) and
  \<^verbatim>\<open>5\<close> (a number); any other text is a syntax error to it, as the empty text and
  \<^verbatim>\<open>not json\<close> are to every \<^verbatim>\<open>JSON.parse\<close>. The sample query-string parsers
  split at \<^verbatim>\<open>&\<close> and at the first \<^verbatim>\<open>=\<close>, as the real ones do on texts with
  no escapes and no repeated names. The sample \<^verbatim>\<open>getBody\<close> reads an uncompressed
  stream of at most \<open>limit\<close> ASCII bytes.
  No example asks for a pretty body, and the sample \<^verbatim>\<open>JSON.stringify\<close> prints
  nothing of the result.
\<close>

definition sample_JSON_parse :: "string \<Rightarrow> jsval option" where
  "sample_JSON_parse s =
     (if s = ''{}'' then Some (JObj []) else if s = ''5'' then Some (JNum 5) else None)"

fun splitOn :: "char \<Rightarrow> string \<Rightarrow> string list" where
  "splitOn d [] = [[]]"
| "splitOn d (c # cs) =
     (if c = d then [] # splitOn d cs
      else (case splitOn d cs of [] \<Rightarrow> [[c]] | p # ps \<Rightarrow> (c # p) # ps))"

definition sample_pairs :: "string \<Rightarrow> (string \<times> string) list" where
  "sample_pairs s =
     map (\<lambda>p. (takeWhile (\<lambda>c. c \<noteq> CHR ''='') p, drop 1 (dropWhile (\<lambda>c. c \<noteq> CHR ''='') p)))
         (filter (\<lambda>p. p \<noteq> []) (splitOn (CHR ''&'') s))"

definition sample_contentType_parse :: "string \<Rightarrow> error + ParsedMediaType" where
  "sample_contentType_parse header =
     (let t = takeWhile (\<lambda>c. c \<noteq> CHR '';'') header;
          rest = dropWhile (\<lambda>c. c \<noteq> CHR '';'') header
      in if CHR ''/'' \<notin> set t then Inl (PlainError ''TypeError: invalid media type'')
         else Inr \<lparr> mtype = toLowerCase t,
                    parameters =
                      (if startsWith rest ''; charset=''
                       then [''charset'' \<mapsto> drop 10 rest] else Map.empty) \<rparr>)"

definition sample_getBody :: "stream \<Rightarrow> string \<Rightarrow> string option \<Rightarrow> nat \<Rightarrow> raw_error + string" where
  "sample_getBody s charset len limit =
     (case s of
        Identity bytes \<Rightarrow>
          if limit < length bytes
          then Inl \<lparr> wrapped_status = 413, etype = ''entity.too.large'',
                     emessage = ''request entity too large'' \<rparr>
          else Inr bytes
      | _ \<Rightarrow> Inl \<lparr> wrapped_status = 400, etype = ''Z_DATA_ERROR'',
                   emessage = ''incorrect header check'' \<rparr>)"

definition sample_platform :: platform where
  "sample_platform =
     \<lparr> JSON_parse = sample_JSON_parse,
       JSON_stringify = (\<lambda>r indent. ''{}''),
       querystring_parse = (\<lambda>s. JObj (map (\<lambda>(k, v). (k, JStr v)) (sample_pairs s))),
       URLSearchParams = (\<lambda>q. case q of None \<Rightarrow> [] | Some s \<Rightarrow> sample_pairs s),
       contentType_parse = sample_contentType_parse,
       getBody = sample_getBody \<rparr>"

text \<open>
  The sample engine: a schema is the list of its defects and the answer it gives to every
  execution; a document is the list of its operations, each a name (if it has one) and a
  kind. It parses two documents, and finds an operation as \<^verbatim>\<open>getOperationAST\<close>
  does: by its name, or the only one when no name is asked for.
\<close>

record sample_schema =
  defects :: "string list"
  answer :: "error + ExecutionResult"

type_synonym sample_document = "(string option \<times> string) list"

definition sample_parse :: "source \<Rightarrow> error + sample_document" where
  "sample_parse src =
     (case src of
        Source q n \<Rightarrow>
          if q = ''{ hello }'' then Inr [(None, ''query'')]
          else if q = ''mutation M { bump }'' then Inr [(Some ''M'', ''mutation'')]
          else Inl (PlainError ''Syntax Error''))"

definition sample_getOperationAST :: "sample_document \<Rightarrow> string option \<Rightarrow> string option" where
  "sample_getOperationAST doc opname =
     (case opname of
        None \<Rightarrow> (case doc of [(n, k)] \<Rightarrow> Some k | _ \<Rightarrow> None)
      | Some nm \<Rightarrow> map_option snd (find (\<lambda>(n, k). n = Some nm) doc))"

definition sample_engine :: "(sample_schema, sample_document, unit, unit, unit) engine" where
  "sample_engine =
     \<lparr> validateSchema = (\<lambda>sch. map PlainError (defects sch)),
       parse = sample_parse,
       specifiedRules = [],
       validate = (\<lambda>sch doc rules. []),
       getOperationAST = sample_getOperationAST,
       execute = (\<lambda>sch doc root ctx vars opname resolver. answer sch),
       formatError =
         (\<lambda>e. case e of
                HttpError s m \<Rightarrow> JObj [(''message'', JStr m)]
              | PlainError m \<Rightarrow> JObj [(''message'', JStr m)]
              | CharsetError s c \<Rightarrow>
                  JObj [(''message'', JStr ''Unsupported charset''), (''charset'', JStr c)]) \<rparr>"

definition hello_world :: ExecutionResult where
  "hello_world =
     \<lparr> data = JObj [(''hello'', JStr ''world'')], errors = None, extensions = JUndefined \<rparr>"

definition good_schema :: sample_schema where
  "good_schema = \<lparr> defects = [], answer = Inr hello_world \<rparr>"

definition bad_schema :: sample_schema where
  "bad_schema = \<lparr> defects = [''Query root type must be provided.''], answer = Inr hello_world \<rparr>"

text \<open>
  A schema whose execution fails on a field that may not be null: the engine answers with
  \<^verbatim>\<open>data: null\<close> and the error.
\<close>

definition null_data :: ExecutionResult where
  "null_data =
     \<lparr> data = JNull,
       errors = Some [PlainError ''Cannot return null for non-nullable field Query.hello.''],
       extensions = JUndefined \<rparr>"

definition null_data_schema :: sample_schema where
  "null_data_schema = \<lparr> defects = [], answer = Inr null_data \<rparr>"

definition sample_options ::
  "sample_schema \<Rightarrow> (sample_schema, sample_document, unit, unit, unit) OptionsData" where
  "sample_options sch =
     \<lparr> schema = Some sch, rootValue = (), pretty = False, opt_formatError = None,
       validationRules = None, opt_extensions = None, fieldResolver = () \<rparr>"

definition fresh_response :: response where
  "fresh_response = \<lparr> status = 404, headers = Map.empty, rtype = None, rbody = None \<rparr>"

text \<open>A request with no body: a method, a URL, and a content type if it has one.\<close>

definition sample_context :: "string \<Rightarrow> string \<Rightarrow> string option \<Rightarrow> string \<Rightarrow> Context" where
  "sample_context m u ct bytes =
     \<lparr> request_method = m,
       req = \<lparr> url = Some u, content_type = ct, content_encoding = None,
               content_length = None, payload = bytes \<rparr>,
       body = JUndefined,
       response = fresh_response \<rparr>"

section \<open>Strings: case folding and the brace test\<close>

lemma distinct_upperLetters: "distinct upperLetters"
  by (simp add: upperLetters_def)

lemma length_letters: "length upperLetters = length lowerLetters"
  by (simp add: upperLetters_def lowerLetters_def)

lemma fst_letters: "fst ` set (zip upperLetters lowerLetters) = set upperLetters"
  using length_letters by (simp flip: set_map)

lemma toLowerChar_eq_iff:
  "toLowerChar c = x \<longleftrightarrow>
     (c, x) \<in> set (zip upperLetters lowerLetters) \<or> (c \<notin> set upperLetters \<and> c = x)"
proof (cases "map_of (zip upperLetters lowerLetters) c")
  case None
  then have "c \<notin> set upperLetters"
    by (simp add: map_of_eq_None_iff fst_letters)
  moreover from this have "(c, x) \<notin> set (zip upperLetters lowerLetters)"
    by (auto dest: set_zip_leftD)
  ultimately show ?thesis using None by (simp add: toLowerChar_def)
next
  case (Some l)
  have d: "distinct (map fst (zip upperLetters lowerLetters))"
    using distinct_upperLetters length_letters by simp
  from Some have "c \<in> set upperLetters"
    by (auto dest: map_of_SomeD set_zip_leftD)
  moreover have "(c, x) \<in> set (zip upperLetters lowerLetters) \<longleftrightarrow> l = x"
    using Some map_of_eq_Some_iff [OF d, of c x] by auto
  ultimately show ?thesis using Some by (simp add: toLowerChar_def)
qed

lemma toLowerChar_cases:
  "toLowerChar c = CHR ''u'' \<longleftrightarrow> c = CHR ''u'' \<or> c = CHR ''U''"
  "toLowerChar c = CHR ''t'' \<longleftrightarrow> c = CHR ''t'' \<or> c = CHR ''T''"
  "toLowerChar c = CHR ''f'' \<longleftrightarrow> c = CHR ''f'' \<or> c = CHR ''F''"
  "toLowerChar c = CHR ''-'' \<longleftrightarrow> c = CHR ''-''"
  unfolding toLowerChar_eq_iff by (auto simp: upperLetters_def lowerLetters_def)

lemma startsWith_utf:
  "startsWith (toLowerCase cs) ''utf-'' \<longleftrightarrow>
     (\<exists>a b c rest. cs = a # b # c # CHR ''-'' # rest \<and>
        (a = CHR ''u'' \<or> a = CHR ''U'') \<and> (b = CHR ''t'' \<or> b = CHR ''T'') \<and>
        (c = CHR ''f'' \<or> c = CHR ''F''))"
proof (cases cs)
  case Nil then show ?thesis by (simp add: startsWith_def toLowerCase_def)
next
  case (Cons a r1)
  show ?thesis
  proof (cases r1)
    case Nil with Cons show ?thesis by (simp add: startsWith_def toLowerCase_def)
  next
    case (Cons b r2)
    note c2 = this
    show ?thesis
    proof (cases r2)
      case Nil with c2 \<open>cs = a # r1\<close> show ?thesis by (simp add: startsWith_def toLowerCase_def)
    next
      case (Cons c r3)
      note c3 = this
      show ?thesis
      proof (cases r3)
        case Nil with c2 c3 \<open>cs = a # r1\<close> show ?thesis by (simp add: startsWith_def toLowerCase_def)
      next
        case (Cons d r4)
        with c2 c3 \<open>cs = a # r1\<close> show ?thesis
          by (auto simp: startsWith_def toLowerCase_def toLowerChar_cases)
      qed
    qed
  qed
qed

lemma jsonObjRegex_test_iff:
  "jsonObjRegex_test s \<longleftrightarrow>
     (\<exists>ws rest. s = ws @ CHR ''{'' # rest \<and> (\<forall>c\<in>set ws. json_space c))"
proof (induction s)
  case Nil
  then show ?case by simp
next
  case (Cons c cs)
  show ?case
  proof (cases "json_space c")
    case True
    then have nb: "c \<noteq> CHR ''{''" by (auto simp: json_space_def)
    show ?thesis
    proof
      assume "jsonObjRegex_test (c # cs)"
      with True Cons obtain ws rest where "cs = ws @ CHR ''{'' # rest" "\<forall>c\<in>set ws. json_space c"
        by auto
      with True have "c # cs = (c # ws) @ CHR ''{'' # rest \<and> (\<forall>x\<in>set (c # ws). json_space x)"
        by simp
      then show "\<exists>ws rest. c # cs = ws @ CHR ''{'' # rest \<and> (\<forall>c\<in>set ws. json_space c)"
        by blast
    next
      assume "\<exists>ws rest. c # cs = ws @ CHR ''{'' # rest \<and> (\<forall>c\<in>set ws. json_space c)"
      then obtain ws rest where w: "c # cs = ws @ CHR ''{'' # rest" "\<forall>c\<in>set ws. json_space c"
        by blast
      with nb obtain ws' where "ws = c # ws'" by (cases ws) auto
      with w have "cs = ws' @ CHR ''{'' # rest" "\<forall>c\<in>set ws'. json_space c" by auto
      with Cons have "jsonObjRegex_test cs" by blast
      with True show "jsonObjRegex_test (c # cs)" by simp
    qed
  next
    case False
    show ?thesis
    proof
      assume "jsonObjRegex_test (c # cs)"
      with False have "c = CHR ''{''" by simp
      then have "c # cs = [] @ CHR ''{'' # cs \<and> (\<forall>x\<in>set ([]::string). json_space x)" by simp
      then show "\<exists>ws rest. c # cs = ws @ CHR ''{'' # rest \<and> (\<forall>c\<in>set ws. json_space c)"
        by blast
    next
      assume "\<exists>ws rest. c # cs = ws @ CHR ''{'' # rest \<and> (\<forall>c\<in>set ws. json_space c)"
      then obtain ws rest where w: "c # cs = ws @ CHR ''{'' # rest" "\<forall>c\<in>set ws. json_space c"
        by blast
      with False have "ws = []" by (cases ws) auto
      with w have "c = CHR ''{''" by simp
      with False show "jsonObjRegex_test (c # cs)" by simp
    qed
  qed
qed

lemma spec_utf_charset_iff: "spec_utf_charset cs \<longleftrightarrow> startsWith (toLowerCase cs) ''utf-''"
  unfolding startsWith_utf by (auto simp: spec_utf_charset_def split: list.splits)

lemma spec_starts_with_brace_iff: "spec_starts_with_brace s \<longleftrightarrow> jsonObjRegex_test s"
  unfolding jsonObjRegex_test_iff spec_starts_with_brace_def
  by (auto simp: json_space_def subset_iff)

section \<open>Reading the body: the charset\<close>

text \<open>
  C7. The charset is the \<^verbatim>\<open>charset\<close> parameter of the content type, \<^verbatim>\<open>utf-8\<close>
  when there is none. If it does not start with \<^verbatim>\<open>utf-\<close>, whatever the case of its
  letters, reading the body fails with status 415 and the unsupported-charset message,
  which names the charset. If it does, the check is passed: what the decompressed stream
  decodes to is the body.
\<close>

theorem readBody_charset_check:
  assumes "charset = (case parameters typeInfo ''charset'' of None \<Rightarrow> ''utf-8'' | Some c \<Rightarrow> c)"
  shows "(\<not> spec_utf_charset charset \<longrightarrow>
            readBody pf rq typeInfo = Inl (CharsetError 415 (toLowerCase charset)))
       \<and> (spec_utf_charset charset \<longrightarrow>
            (\<forall>s text.
               decompressed rq (readBody_encoding rq) = Inr s \<longrightarrow>
               getBody pf s (toLowerCase charset) (readBody_length rq) (100 * 1024) = Inr text \<longrightarrow>
               readBody pf rq typeInfo = Inr text))"
proof -
  have cs: "readBody_charset typeInfo = toLowerCase charset"
    using assms
    by (simp add: readBody_charset_def toLowerCase_def toLowerChar_def upperLetters_def
        lowerLetters_def split: option.splits)
  show ?thesis
    by (simp add: readBody_def cs spec_utf_charset_iff httpError_def readBody_limit_def)
qed


theorem readBody_charset_check_witness:
  "readBody sample_platform (req (sample_context ''POST'' ''/graphql'' None ''{}''))
     \<lparr> mtype = ''application/json'', parameters = [''charset'' \<mapsto> ''Latin1''] \<rparr>
     = Inl (CharsetError 415 ''latin1'')
   \<and> readBody sample_platform (req (sample_context ''POST'' ''/graphql'' None ''{}''))
     \<lparr> mtype = ''application/json'', parameters = [''charset'' \<mapsto> ''UTF-8''] \<rparr>
     = Inr ''{}''"
proof -
  let ?rq = "req (sample_context ''POST'' ''/graphql'' None ''{}'')"
  let ?t1 = "\<lparr> mtype = ''application/json'', parameters = [''charset'' \<mapsto> ''Latin1''] \<rparr>"
  let ?t2 = "\<lparr> mtype = ''application/json'', parameters = [''charset'' \<mapsto> ''UTF-8''] \<rparr>"
  have low: "toLowerCase ''Latin1'' = ''latin1''" "toLowerCase ''UTF-8'' = ''utf-8''"
    by (simp_all add: toLowerCase_def toLowerChar_def upperLetters_def lowerLetters_def)
  have "readBody sample_platform ?rq ?t1 = Inl (CharsetError 415 ''latin1'')"
    using readBody_charset_check [of "''Latin1''" ?t1 sample_platform ?rq]
    by (simp add: spec_utf_charset_def low)
  moreover have "readBody sample_platform ?rq ?t2 = Inr ''{}''"
    using readBody_charset_check [of "''UTF-8''" ?t2 sample_platform ?rq]
    by (simp add: spec_utf_charset_def low decompressed_def readBody_encoding_def
        readBody_length_def sample_context_def sample_platform_def sample_getBody_def)
  ultimately show ?thesis by simp
qed

section \<open>Interpreting the body\<close>

lemma parseBody_reads_stream:
  assumes "\<not> truthy bdy" "bdy \<noteq> JNull"
    and "content_type rq = Some header"
    and "contentType_parse pf header = Inr typeInfo"
    and "mtype typeInfo = ''application/json''"
    and "readBody pf rq typeInfo = Inr rawBody"
  shows "parseBody pf rq bdy =
           (if jsonObjRegex_test rawBody
            then (case JSON_parse pf rawBody of
                    Some v \<Rightarrow> Inr v
                  | None \<Rightarrow> Inl (httpError 400 ''POST body sent invalid JSON.''))
            else Inl (httpError 400 ''POST body sent invalid JSON.''))"
proof -
  from assms(1,2) have nobj: "(typeof bdy = ''object'' \<and> \<not> instanceofBuffer bdy) = False"
    by (cases bdy) simp_all
  show ?thesis
    unfolding parseBody_def nobj using assms(1,3-6) by simp
qed

text \<open>
  The body mapping is never null or undefined, on a platform whose \<^verbatim>\<open>JSON.parse\<close>
  makes an object of a text that opens with a brace and whose \<^verbatim>\<open>querystring.parse\<close>
  returns an object, as they do.
\<close>

lemma parseBody_mapping:
  assumes "parseBody pf rq bdy = Inr b"
    and "\<And>s v. jsonObjRegex_test s \<Longrightarrow> JSON_parse pf s = Some v \<Longrightarrow> v \<noteq> JNull \<and> v \<noteq> JUndefined"
    and "\<And>s. querystring_parse pf s \<noteq> JNull \<and> querystring_parse pf s \<noteq> JUndefined"
  shows "b \<noteq> JNull \<and> b \<noteq> JUndefined"
proof (cases "typeof bdy = ''object'' \<and> \<not> instanceofBuffer bdy")
  case True
  with assms(1) show ?thesis
    by (cases bdy) (auto simp: parseBody_def split: if_splits)
next
  case False
  with assms(1) show ?thesis
    using assms(2,3)
    by (auto simp: parseBody_def httpError_def split: option.splits sum.splits if_splits)
qed

text \<open>
  C6. A request whose content type is \<^verbatim>\<open>application/json\<close> and whose body is read
  from the stream (no body was left by an upstream middleware): if the first character of
  the decoded body that is not a space, a tab, a line feed or a carriage return is not an
  opening brace, or if \<^verbatim>\<open>JSON.parse\<close> refuses the body, interpreting the body fails
  with status 400 and the message of a malformed body.
\<close>

theorem parseBody_malformed_json:
  assumes "\<not> truthy bdy" and "bdy \<noteq> JNull"
    and "content_type rq = Some header"
    and "contentType_parse pf header = Inr typeInfo"
    and "mtype typeInfo = ''application/json''"
    and "readBody pf rq typeInfo = Inr rawBody"
    and "\<not> spec_starts_with_brace rawBody \<or> JSON_parse pf rawBody = None"
  shows "parseBody pf rq bdy = Inl (HttpError 400 ''POST body sent invalid JSON.'')"
  using assms(7) parseBody_reads_stream [OF assms(1-6)]
  by (auto simp: spec_starts_with_brace_iff httpError_def)

theorem parseBody_malformed_json_witness:
  "parseBody sample_platform
      (req (sample_context ''POST'' ''/graphql'' (Some ''application/json'') ''  [5]'')) JUndefined
     = Inl (HttpError 400 ''POST body sent invalid JSON.'')
   \<and> parseBody sample_platform
      (req (sample_context ''POST'' ''/graphql'' (Some ''application/json'') ''{ oops'')) JUndefined
     = Inl (HttpError 400 ''POST body sent invalid JSON.'')"
proof -
  let ?t = "\<lparr> mtype = ''application/json'', parameters = Map.empty \<rparr>"
  have ct: "contentType_parse sample_platform ''application/json'' = Inr ?t"
    by (simp add: sample_platform_def sample_contentType_parse_def startsWith_def
        toLowerCase_def toLowerChar_def upperLetters_def lowerLetters_def)
  have rd: "readBody sample_platform
              (req (sample_context ''POST'' ''/graphql'' (Some ''application/json'') bytes)) ?t
            = Inr bytes" if "length bytes \<le> 100" for bytes
    using that
    by (simp add: readBody_def readBody_charset_def startsWith_def decompressed_def
        readBody_encoding_def readBody_length_def readBody_limit_def sample_context_def
        sample_platform_def sample_getBody_def)
  have nb: "\<not> spec_starts_with_brace ''  [5]''"
    by (simp add: spec_starts_with_brace_iff json_space_def)
  have np: "JSON_parse sample_platform ''{ oops'' = None"
    by (simp add: sample_platform_def sample_JSON_parse_def)
  have "parseBody sample_platform
          (req (sample_context ''POST'' ''/graphql'' (Some ''application/json'') ''  [5]'')) JUndefined
        = Inl (HttpError 400 ''POST body sent invalid JSON.'')"
    using parseBody_malformed_json [of JUndefined _ "''application/json''" sample_platform ?t "''  [5]''"]
      ct rd [of "''  [5]''"] nb
    by (simp add: sample_context_def)
  moreover have "parseBody sample_platform
          (req (sample_context ''POST'' ''/graphql'' (Some ''application/json'') ''{ oops'')) JUndefined
        = Inl (HttpError 400 ''POST body sent invalid JSON.'')"
    using parseBody_malformed_json [of JUndefined _ "''application/json''" sample_platform ?t "''{ oops''"]
      ct rd [of "''{ oops''"] np
    by (simp add: sample_context_def)
  ultimately show ?thesis by simp
qed

text \<open>
  C8, as the code has it. A body left as a Buffer is not used as the body mapping, and it
  is not decoded either: the stream is not read, and the body mapping is empty whenever the
  request has no content type or one that parses (a content type that does not parse
  throws the parser's error).
\<close>

theorem parseBody_buffer_ignored:
  "parseBody pf rq (JBuffer bytes) =
     (case content_type rq of
        None \<Rightarrow> Inr (JObj [])
      | Some header \<Rightarrow>
          (case contentType_parse pf header of
             Inl e \<Rightarrow> Inl e
           | Inr typeInfo \<Rightarrow> Inr (JObj [])))
   \<and> parseBody pf rq (JBuffer bytes) \<noteq> Inr (JBuffer bytes)"
  by (simp add: parseBody_def split: option.splits sum.splits)

theorem parseBody_buffer_ignored_witness:
  "parseBody sample_platform
      (req (sample_context ''POST'' ''/graphql'' (Some ''application/json'') ''{}'')) (JBuffer ''{}'')
     = Inr (JObj [])"
  using parseBody_buffer_ignored
    [of sample_platform "req (sample_context ''POST'' ''/graphql'' (Some ''application/json'') ''{}'')" "''{}''"]
  by (simp add: sample_context_def sample_platform_def sample_contentType_parse_def)

text \<open>
  C8, as the spec has it, fails: on a request of type \<^verbatim>\<open>application/graphql\<close> whose
  stream holds \<^verbatim>\<open>{ hello }\<close>, a Buffer left as the body gives the empty mapping,
  and no body gives the query.
\<close>

theorem parseBody_buffer_not_decoded:
  "parseBody sample_platform
      (req (sample_context ''POST'' ''/graphql'' (Some ''application/graphql'') ''{ hello }''))
      (JBuffer ''{ hello }'') = Inr (JObj [])
   \<and> parseBody sample_platform
      (req (sample_context ''POST'' ''/graphql'' (Some ''application/graphql'') ''{ hello }''))
      JUndefined = Inr (JObj [(''query'', JStr ''{ hello }'')])"
  by (simp add: parseBody_def sample_context_def sample_platform_def sample_contentType_parse_def
      toLowerCase_def toLowerChar_def upperLetters_def lowerLetters_def
      readBody_def readBody_charset_def startsWith_def decompressed_def
      readBody_encoding_def readBody_length_def readBody_limit_def sample_getBody_def)

section \<open>Resolving the parameters\<close>

lemmas string_defs =
  toLowerCase_def toLowerChar_def upperLetters_def lowerLetters_def startsWith_def quoted_def

lemmas sample_defs =
  sample_context_def sample_platform_def sample_JSON_parse_def sample_pairs_def
  sample_contentType_parse_def sample_getBody_def fresh_response_def

lemmas body_defs =
  parseBody_def readBody_def readBody_charset_def readBody_encoding_def readBody_length_def
  readBody_limit_def decompressed_def

lemmas param_defs =
  getGraphQLParams_def url_query_def usp_get_def urlOrBody_def stringOrNull_def
  parseVariables_def httpError_def

lemma andThen_simps:
  "andThen (Inr x) f = f x"
  "andThen (Inl e) f = Inl e"
  by (simp_all add: andThen_def)

lemma getProp_defined:
  "b \<noteq> JNull \<Longrightarrow> b \<noteq> JUndefined \<Longrightarrow> \<exists>v. getProp b k = Inr v"
  by (cases b) simp_all

lemma urlOrBody_url: "usp_get urlData k = Some s \<Longrightarrow> urlOrBody urlData b k = Inr (JStr s)"
  by (simp add: urlOrBody_def)

lemma urlOrBody_defined:
  "b \<noteq> JNull \<Longrightarrow> b \<noteq> JUndefined \<Longrightarrow> \<exists>v. urlOrBody urlData b k = Inr v"
  using getProp_defined [of b k] by (auto simp: urlOrBody_def split: option.splits)

lemma parseVariables_text:
  "parseVariables pf (JStr t) =
     (case JSON_parse pf t of
        Some parsed \<Rightarrow> Inr parsed
      | None \<Rightarrow> Inl (HttpError 400 ''Variables are invalid JSON.''))"
  by (simp add: parseVariables_def httpError_def split: option.splits)

lemma getGraphQLParams_invalid_variables:
  assumes "parseBody pf rq bdy = Inr b" and "b \<noteq> JNull" and "b \<noteq> JUndefined"
    and "urlOrBody (URLSearchParams pf (url_query (url rq))) b ''variables'' = Inr (JStr t)"
    and "JSON_parse pf t = None"
  shows "getGraphQLParams pf rq bdy = Inl (HttpError 400 ''Variables are invalid JSON.'')"
proof -
  obtain q0 where "urlOrBody (URLSearchParams pf (url_query (url rq))) b ''query'' = Inr q0"
    using urlOrBody_defined [OF assms(2,3)] by blast
  with assms(1,4,5) show ?thesis
    by (simp add: getGraphQLParams_def andThen_def parseVariables_text)
qed

lemma getGraphQLParams_body_error:
  "parseBody pf rq bdy = Inl e \<Longrightarrow> getGraphQLParams pf rq bdy = Inl e"
  by (simp add: getGraphQLParams_def andThen_def)

text \<open>
  C3, as the code has it. The body is interpreted before the variables are looked at. If
  that fails, resolving the parameters fails with the error of the body, whatever the
  variables are. If it gives a mapping (a value that is neither null nor undefined, see
  \<open>parseBody_mapping\<close>), and the variables, taken from the query string or else from the
  mapping, are a text that \<^verbatim>\<open>JSON.parse\<close> refuses, resolving the parameters fails
  with status 400 and the message of invalid variables.
\<close>

theorem getGraphQLParams_variables_not_json:
  assumes "urlData = URLSearchParams pf (url_query (url rq))"
  shows "(\<forall>e. parseBody pf rq bdy = Inl e \<longrightarrow> getGraphQLParams pf rq bdy = Inl e)
       \<and> (\<forall>b t. parseBody pf rq bdy = Inr b \<longrightarrow> b \<noteq> JNull \<longrightarrow> b \<noteq> JUndefined \<longrightarrow>
              (usp_get urlData ''variables'' = Some t
               \<or> (usp_get urlData ''variables'' = None \<and> getProp b ''variables'' = Inr (JStr t))) \<longrightarrow>
              JSON_parse pf t = None \<longrightarrow>
              getGraphQLParams pf rq bdy = Inl (HttpError 400 ''Variables are invalid JSON.''))"
proof (intro conjI allI impI)
  fix e
  assume "parseBody pf rq bdy = Inl e"
  then show "getGraphQLParams pf rq bdy = Inl e"
    by (rule getGraphQLParams_body_error)
next
  fix b t
  assume b: "parseBody pf rq bdy = Inr b" "b \<noteq> JNull" "b \<noteq> JUndefined"
    and v: "usp_get urlData ''variables'' = Some t
            \<or> (usp_get urlData ''variables'' = None \<and> getProp b ''variables'' = Inr (JStr t))"
    and np: "JSON_parse pf t = None"
  from assms v
  have "urlOrBody (URLSearchParams pf (url_query (url rq))) b ''variables'' = Inr (JStr t)"
    by (auto simp: urlOrBody_def)
  then show "getGraphQLParams pf rq bdy = Inl (HttpError 400 ''Variables are invalid JSON.'')"
    by (rule getGraphQLParams_invalid_variables [OF b _ np])
qed

text \<open>
  C10, as the code has it. The query string has the name \<open>variables\<close> with an empty
  value, and the empty text is no JSON (as it is to every \<^verbatim>\<open>JSON.parse\<close>). The body is
  interpreted first: if that fails, resolving the parameters fails with the error of the
  body; if it gives a mapping (a value that is neither null nor undefined), resolving the
  parameters fails with status 400 and the message of invalid variables, whatever the
  mapping holds.
\<close>

theorem getGraphQLParams_empty_variables:
  assumes "usp_get (URLSearchParams pf (url_query (url rq))) ''variables'' = Some ''''"
    and "JSON_parse pf '''' = None"
  shows "(\<forall>e. parseBody pf rq bdy = Inl e \<longrightarrow> getGraphQLParams pf rq bdy = Inl e)
       \<and> (\<forall>b. parseBody pf rq bdy = Inr b \<longrightarrow> b \<noteq> JNull \<longrightarrow> b \<noteq> JUndefined \<longrightarrow>
              getGraphQLParams pf rq bdy = Inl (HttpError 400 ''Variables are invalid JSON.''))"
proof (intro conjI allI impI)
  fix e
  assume "parseBody pf rq bdy = Inl e"
  then show "getGraphQLParams pf rq bdy = Inl e"
    by (rule getGraphQLParams_body_error)
next
  fix b
  assume b: "parseBody pf rq bdy = Inr b" "b \<noteq> JNull" "b \<noteq> JUndefined"
  from assms(1)
  have "urlOrBody (URLSearchParams pf (url_query (url rq))) b ''variables'' = Inr (JStr '''')"
    by (rule urlOrBody_url)
  then show "getGraphQLParams pf rq bdy = Inl (HttpError 400 ''Variables are invalid JSON.'')"
    by (rule getGraphQLParams_invalid_variables [OF b _ assms(2)])
qed

text \<open>
  C2. The body is interpreted and the parameters are resolved. For each of \<open>query\<close>,
  \<open>operationName\<close> and \<open>variables\<close> that the query string names, the resolved value is
  the one of the query string (for the variables, what \<^verbatim>\<open>JSON.parse\<close> makes of it),
  also when it is the empty text; and the value the body holds under that name changes
  nothing in what the resolution returns or throws.
\<close>

theorem getGraphQLParams_query_string_first:
  assumes "urlData = URLSearchParams pf (url_query (url rq))"
  shows "(\<forall>p. getGraphQLParams pf rq bdy = Inr p \<longrightarrow>
            (\<forall>q. usp_get urlData ''query'' = Some q \<longrightarrow> query p = Some q) \<and>
            (\<forall>n. usp_get urlData ''operationName'' = Some n \<longrightarrow> operationName p = Some n) \<and>
            (\<forall>t. usp_get urlData ''variables'' = Some t \<longrightarrow> JSON_parse pf t = Some (variables p)))
       \<and> (\<forall>k s v v' kvs.
            k \<in> {''query'', ''operationName'', ''variables''} \<longrightarrow>
            usp_get urlData k = Some s \<longrightarrow>
            getGraphQLParams pf rq (JObj ((k, v) # kvs)) = getGraphQLParams pf rq (JObj ((k, v') # kvs)))"
proof (intro conjI allI impI)
  fix p q
  assume "getGraphQLParams pf rq bdy = Inr p" "usp_get urlData ''query'' = Some q"
  then show "query p = Some q"
    using assms
    by (auto simp: getGraphQLParams_def Let_def andThen_def urlOrBody_def stringOrNull_def
        split: sum.splits if_splits)
next
  fix p n
  assume "getGraphQLParams pf rq bdy = Inr p" "usp_get urlData ''operationName'' = Some n"
  then show "operationName p = Some n"
    using assms
    by (auto simp: getGraphQLParams_def Let_def andThen_def urlOrBody_def stringOrNull_def
        split: sum.splits if_splits)
next
  fix p t
  assume "getGraphQLParams pf rq bdy = Inr p" "usp_get urlData ''variables'' = Some t"
  then show "JSON_parse pf t = Some (variables p)"
    using assms
    by (auto simp: getGraphQLParams_def Let_def andThen_def urlOrBody_def parseVariables_text
        split: sum.splits if_splits option.splits)
next
  fix k s v v' kvs
  assume k: "k \<in> {''query'', ''operationName'', ''variables''}" and u: "usp_get urlData k = Some s"
  have pb: "parseBody pf rq (JObj kvs') = Inr (JObj kvs')" for kvs'
    by (simp add: parseBody_def)
  have other: "getProp (JObj ((k, v) # kvs)) k' = getProp (JObj ((k, v') # kvs)) k'"
    if "k' \<noteq> k" for k'
    using that by simp
  have same: "urlOrBody urlData (JObj ((k, v) # kvs)) k' = urlOrBody urlData (JObj ((k, v') # kvs)) k'"
    for k'
    using u other [of k'] by (cases "k' = k") (simp_all add: urlOrBody_def split: option.splits)
  have rawsame: "getProp (JObj ((k, v) # kvs)) ''raw'' = getProp (JObj ((k, v') # kvs)) ''raw''"
    using k by (intro other) auto
  show "getGraphQLParams pf rq (JObj ((k, v) # kvs)) = getGraphQLParams pf rq (JObj ((k, v') # kvs))"
    by (simp add: getGraphQLParams_def Let_def pb andThen_simps assms [symmetric] same rawsame
        del: getProp.simps)
qed


theorem getGraphQLParams_query_string_first_witness:
  "usp_get (URLSearchParams sample_platform
       (url_query (url (req (sample_context ''GET'' ''/graphql?query=&variables={}&operationName=Q'' None '''')))))
     ''query'' = Some ''''
   \<and> getGraphQLParams sample_platform
       (req (sample_context ''GET'' ''/graphql?query=&variables={}&operationName=Q'' None ''''))
       (JObj [(''query'', JStr ''{ hello }''), (''variables'', JStr ''5''),
              (''operationName'', JStr ''B'')])
     = Inr \<lparr> query = Some '''', variables = JObj [], operationName = Some ''Q'', raw = False \<rparr>"
proof -
  let ?rq = "req (sample_context ''GET'' ''/graphql?query=&variables={}&operationName=Q'' None '''')"
  let ?b = "JObj [(''query'', JStr ''{ hello }''), (''variables'', JStr ''5''),
                  (''operationName'', JStr ''B'')]"
  have u: "URLSearchParams sample_platform (url_query (url ?rq))
             = [(''query'', ''''), (''variables'', ''{}''), (''operationName'', ''Q'')]"
    by (simp add: sample_defs url_query_def)
  let ?p = "\<lparr> query = Some [], variables = JObj [], operationName = Some ''Q'', raw = False \<rparr>"
  have p: "getGraphQLParams sample_platform ?rq ?b = Inr ?p"
    by (simp add: u param_defs andThen_simps parseBody_def sample_defs)
  from getGraphQLParams_query_string_first [OF refl, of sample_platform ?rq ?b] p
  have "query ?p = Some [] \<and> operationName ?p = Some ''Q''
        \<and> JSON_parse sample_platform ''{}'' = Some (variables ?p)"
    by (simp add: u usp_get_def)
  with p u show ?thesis by (simp add: usp_get_def)
qed

theorem getGraphQLParams_variables_not_json_witness:
  "getGraphQLParams sample_platform
       (req (sample_context ''GET'' ''/graphql?variables=not json'' None '''')) JUndefined
     = Inl (HttpError 400 ''Variables are invalid JSON.'')
   \<and> getGraphQLParams sample_platform
       (req (sample_context ''POST'' ''/graphql''
              (Some ''application/x-www-form-urlencoded'') ''variables=not json'')) JUndefined
     = Inl (HttpError 400 ''Variables are invalid JSON.'')
   \<and> getGraphQLParams sample_platform
       (req (sample_context ''POST'' ''/graphql'' (Some ''application/json'') ''not json''))
       JUndefined
     = Inl (HttpError 400 ''POST body sent invalid JSON.'')"
proof -
  let ?r1 = "req (sample_context ''GET'' ''/graphql?variables=not json'' None '''')"
  let ?r2 = "req (sample_context ''POST'' ''/graphql''
                    (Some ''application/x-www-form-urlencoded'') ''variables=not json'')"
  let ?r3 = "req (sample_context ''POST'' ''/graphql'' (Some ''application/json'') ''not json'')"
  note mapping = getGraphQLParams_variables_not_json [OF refl, THEN conjunct2, rule_format]
  note failing = getGraphQLParams_variables_not_json [OF refl, THEN conjunct1, rule_format]
  have np: "JSON_parse sample_platform ''not json'' = None"
    by (simp add: sample_defs)
  have b1: "parseBody sample_platform ?r1 JUndefined = Inr (JObj [])"
    by (simp add: body_defs sample_defs)
  have u1: "usp_get (URLSearchParams sample_platform (url_query (url ?r1))) ''variables''
              = Some ''not json''"
    by (simp add: sample_defs url_query_def usp_get_def)
  have b2: "parseBody sample_platform ?r2 JUndefined = Inr (JObj [(''variables'', JStr ''not json'')])"
    by (simp add: body_defs sample_defs string_defs)
  have u2: "usp_get (URLSearchParams sample_platform (url_query (url ?r2))) ''variables'' = None"
    by (simp add: sample_defs url_query_def usp_get_def)
  have b3: "parseBody sample_platform ?r3 JUndefined
              = Inl (HttpError 400 ''POST body sent invalid JSON.'')"
    by (simp add: body_defs sample_defs string_defs httpError_def json_space_def)
  have "getGraphQLParams sample_platform ?r1 JUndefined
          = Inl (HttpError 400 ''Variables are invalid JSON.'')"
    by (rule mapping [OF b1 _ _ _ np]) (simp_all add: u1)
  moreover have "getGraphQLParams sample_platform ?r2 JUndefined
          = Inl (HttpError 400 ''Variables are invalid JSON.'')"
    by (rule mapping [OF b2 _ _ _ np]) (simp_all add: u2)
  moreover have "getGraphQLParams sample_platform ?r3 JUndefined
          = Inl (HttpError 400 ''POST body sent invalid JSON.'')"
    using b3 by (rule failing)
  ultimately show ?thesis by simp
qed

text \<open>
  C3, as the spec has it, fails: the variables of
  \<^verbatim>\<open>GET /graphql?variables=not json\<close> are a text that is no JSON, and with the content
  type \<^verbatim>\<open>text/plain; charset=iso-8859-1\<close> resolving the parameters fails with status
  415 and the unsupported-charset message, not with the message of invalid variables: the
  body is read, whatever its type, before the variables are looked at.
\<close>

theorem variables_not_json_charset_415:
  "usp_get (URLSearchParams sample_platform (url_query (url
       (req (sample_context ''GET'' ''/graphql?variables=not json''
              (Some ''text/plain; charset=iso-8859-1'') ''''))))) ''variables''
     = Some ''not json''
   \<and> JSON_parse sample_platform ''not json'' = None
   \<and> getGraphQLParams sample_platform
       (req (sample_context ''GET'' ''/graphql?variables=not json''
              (Some ''text/plain; charset=iso-8859-1'') '''')) JUndefined
     = Inl (CharsetError 415 ''iso-8859-1'')"
proof -
  let ?rq = "req (sample_context ''GET'' ''/graphql?variables=not json''
                   (Some ''text/plain; charset=iso-8859-1'') '''')"
  have ct: "contentType_parse sample_platform ''text/plain; charset=iso-8859-1''
              = Inr \<lparr> mtype = ''text/plain'', parameters = [''charset'' \<mapsto> ''iso-8859-1''] \<rparr>"
    by (simp add: sample_defs string_defs)
  have pb: "parseBody sample_platform ?rq JUndefined = Inl (CharsetError 415 ''iso-8859-1'')"
    by (simp add: parseBody_def sample_context_def ct)
      (simp add: readBody_def readBody_charset_def string_defs)
  have "getGraphQLParams sample_platform ?rq JUndefined = Inl (CharsetError 415 ''iso-8859-1'')"
    using pb by (rule getGraphQLParams_body_error)
  moreover have "usp_get (URLSearchParams sample_platform (url_query (url ?rq))) ''variables''
                   = Some ''not json''"
    by (simp add: sample_defs url_query_def usp_get_def)
  moreover have "JSON_parse sample_platform ''not json'' = None"
    by (simp add: sample_defs)
  ultimately show ?thesis by simp
qed

theorem getGraphQLParams_empty_variables_witness:
  "getGraphQLParams sample_platform
       (req (sample_context ''POST'' ''/graphql?variables='' None ''''))
       (JObj [(''query'', JStr ''{ hello }''), (''variables'', JObj [])])
     = Inl (HttpError 400 ''Variables are invalid JSON.'')"
proof -
  let ?rq = "req (sample_context ''POST'' ''/graphql?variables='' None '''')"
  let ?b = "JObj [(''query'', JStr ''{ hello }''), (''variables'', JObj [])]"
  have pb: "parseBody sample_platform ?rq ?b = Inr ?b"
    by (simp add: parseBody_def)
  have u: "usp_get (URLSearchParams sample_platform (url_query (url ?rq))) ''variables'' = Some ''''"
    by (simp add: sample_defs url_query_def usp_get_def)
  have np: "JSON_parse sample_platform '''' = None"
    by (simp add: sample_defs)
  show ?thesis
    by (rule getGraphQLParams_empty_variables [OF u np, THEN conjunct2, rule_format, OF pb])
      simp_all
qed

text \<open>
  C10, as the spec has it, fails: \<^verbatim>\<open>POST /graphql?variables=\<close> with a body of type
  \<^verbatim>\<open>application/json\<close> that reads \<^verbatim>\<open>[1]\<close> fails with the message of a malformed
  body, and with the charset \<^verbatim>\<open>latin1\<close> it fails with status 415: the body is
  interpreted before the variables are looked at.
\<close>

theorem empty_variables_body_error_first:
  "usp_get (URLSearchParams sample_platform (url_query (url
       (req (sample_context ''POST'' ''/graphql?variables='' (Some ''application/json'') ''[1]'')))))
     ''variables'' = Some ''''
   \<and> getGraphQLParams sample_platform
       (req (sample_context ''POST'' ''/graphql?variables='' (Some ''application/json'') ''[1]''))
       JUndefined
     = Inl (HttpError 400 ''POST body sent invalid JSON.'')
   \<and> getGraphQLParams sample_platform
       (req (sample_context ''POST'' ''/graphql?variables=''
              (Some ''application/json; charset=latin1'') ''{}'')) JUndefined
     = Inl (CharsetError 415 ''latin1'')"
proof -
  let ?r1 = "req (sample_context ''POST'' ''/graphql?variables='' (Some ''application/json'') ''[1]'')"
  let ?r2 = "req (sample_context ''POST'' ''/graphql?variables=''
                    (Some ''application/json; charset=latin1'') ''{}'')"
  have p1: "parseBody sample_platform ?r1 JUndefined
              = Inl (HttpError 400 ''POST body sent invalid JSON.'')"
    by (simp add: body_defs sample_defs string_defs httpError_def json_space_def)
  have ct: "contentType_parse sample_platform ''application/json; charset=latin1''
              = Inr \<lparr> mtype = ''application/json'', parameters = [''charset'' \<mapsto> ''latin1''] \<rparr>"
    by (simp add: sample_defs string_defs)
  have p2: "parseBody sample_platform ?r2 JUndefined = Inl (CharsetError 415 ''latin1'')"
    by (simp add: parseBody_def sample_context_def ct)
      (simp add: readBody_def readBody_charset_def string_defs)
  have "getGraphQLParams sample_platform ?r1 JUndefined
          = Inl (HttpError 400 ''POST body sent invalid JSON.'')"
    using p1 by (rule getGraphQLParams_body_error)
  moreover have "getGraphQLParams sample_platform ?r2 JUndefined = Inl (CharsetError 415 ''latin1'')"
    using p2 by (rule getGraphQLParams_body_error)
  moreover have "usp_get (URLSearchParams sample_platform (url_query (url ?r1))) ''variables''
                   = Some ''''"
    by (simp add: sample_defs url_query_def usp_get_def)
  ultimately show ?thesis by simp
qed

text \<open>
  C4 fails on the code. The variables of \<^verbatim>\<open>GET /graphql?variables=5\<close> are the text
  \<^verbatim>\<open>5\<close>; \<^verbatim>\<open>JSON.parse\<close> makes the number 5 of it, and the number is what the
  resolved parameters hold: the test that turns a value that is no object into null is
  the \<^verbatim>\<open>else\<close> branch of the test for a text, and is not run on what was parsed.
\<close>

theorem getGraphQLParams_variables_number:
  "getGraphQLParams sample_platform
       (req (sample_context ''GET'' ''/graphql?variables=5'' None '''')) JUndefined
     = Inr \<lparr> query = None, variables = JNum 5, operationName = None, raw = False \<rparr>"
  by (simp add: param_defs andThen_simps body_defs sample_defs)

section \<open>The pipeline: the order of the checks\<close>

lemmas engine_defs =
  sample_engine_def sample_parse_def sample_getOperationAST_def sample_options_def
  good_schema_def bad_schema_def null_data_schema_def null_data_def hello_world_def

lemma middleware_runs:
  assumes "request_method ctx = ''GET'' \<or> request_method ctx = ''POST''"
    and "parseOptions options ctx = Inr dat" and "schema dat = Some sch"
  shows "middleware en pf options ctx =
           (None, respond en pf dat ctx (fst (tryCatch en pf dat ctx)) (snd (tryCatch en pf dat ctx)))"
  using assms by (auto simp: middleware_def split: prod.splits)

lemma status_respond: "status (respond en pf dat ctx res resp) = status (escalate res resp)"
  by (simp add: respond_def Let_def)

lemma headers_respond: "headers (respond en pf dat ctx res resp) = headers resp"
  by (simp add: respond_def Let_def escalate_def)



lemma tryCatch_thrown:
  assumes "getGraphQLParams pf (req ctx) (body ctx) = Inr params"
    and "parseQuery en dat params ctx = (Inl e, resp)"
  shows "tryCatch en pf dat ctx = (errorsOnly [e], resp\<lparr>status := statusOr500 e\<rparr>)"
  using assms by (simp add: tryCatch_def tryBlock_def)




lemma sample_params_hello:
  "getGraphQLParams sample_platform
       (req (sample_context m ''/graphql?query={ hello }'' None '''')) JUndefined
     = Inr \<lparr> query = Some ''{ hello }'', variables = JNull, operationName = None, raw = False \<rparr>"
  by (simp add: param_defs andThen_simps body_defs sample_defs)

lemma sample_params_mutation:
  "getGraphQLParams sample_platform
       (req (sample_context m ''/graphql?query=mutation M { bump }&operationName=M'' None ''''))
       JUndefined
     = Inr \<lparr> query = Some ''mutation M { bump }'', variables = JNull,
             operationName = Some ''M'', raw = False \<rparr>"
  by (simp add: param_defs andThen_simps body_defs sample_defs)

lemma sample_parseOptions:
  "parseOptions (OptionsValue (Inr (Some d))) ctx = Inr d"
  by (simp add: parseOptions_def andThen_simps)



section \<open>The pipeline: GET runs queries only\<close>

lemma parseQuery_checked:
  assumes "query params = Some q" "q \<noteq> []" "schema dat = Some sch" "validateSchema en sch = []"
    and "parse en (Source q ''GraphQL request'') = Inr doc"
    and "validate en sch doc
           (specifiedRules en @ (case validationRules dat of None \<Rightarrow> [] | Some rs \<Rightarrow> rs)) = []"
  shows "parseQuery en dat params ctx =
           (case (if request_method ctx = ''GET''
                  then (case getOperationAST en doc (operationName params) of
                          None \<Rightarrow> None
                        | Some operation \<Rightarrow> if operation \<noteq> ''query'' then Some operation else None)
                  else None) of
              Some operation \<Rightarrow>
                (Inl (HttpError 405
                       (''Can only perform a '' @ operation @ '' operation from a POST request.'')),
                 setHeader (response ctx) ''Allow'' ''POST'')
            | None \<Rightarrow>
                (case execute en sch doc (rootValue dat) ctx (variables params)
                        (operationName params) (fieldResolver dat) of
                   Inr res \<Rightarrow>
                     (Inr \<lparr> result = res, document = Some doc \<rparr>, (response ctx)\<lparr>status := 200\<rparr>)
                 | Inl contextError \<Rightarrow>
                     (Inr \<lparr> result = errorsOnly [contextError], document = None \<rparr>,
                      (response ctx)\<lparr>status := 400\<rparr>)))"
  using assms by (simp add: parseQuery_def Let_def httpError_def split: option.splits)

text \<open>
  C5. The request has a query, the schema is valid, and the query parses and validates.
  If the operation to run (the one \<^verbatim>\<open>getOperationAST\<close> finds for the operation name) is
  of a kind other than \<^verbatim>\<open>query\<close>, then over GET the query is refused with status 405
  and the header \<^verbatim>\<open>Allow: POST\<close>, which is what the middleware answers; over POST the
  same request is executed, and ends with status 200 and the engine's result when the
  execution returns one.
\<close>

theorem get_runs_queries_only:
  assumes "query params = Some q" "q \<noteq> []" "schema dat = Some sch" "validateSchema en sch = []"
    and "parse en (Source q ''GraphQL request'') = Inr doc"
    and "validate en sch doc
           (specifiedRules en @ (case validationRules dat of None \<Rightarrow> [] | Some rs \<Rightarrow> rs)) = []"
    and "getOperationAST en doc (operationName params) = Some kind" and "kind \<noteq> ''query''"
    and "ctxGET = ctx\<lparr>request_method := ''GET''\<rparr>"
    and "ctxPOST = ctx\<lparr>request_method := ''POST''\<rparr>"
  shows "parseQuery en dat params ctxGET =
           (Inl (HttpError 405
                  (''Can only perform a '' @ kind @ '' operation from a POST request.'')),
            setHeader (response ctx) ''Allow'' ''POST'')
       \<and> (getGraphQLParams pf (req ctx) (body ctx) = Inr params \<longrightarrow>
            parseOptions options ctxGET = Inr dat \<longrightarrow>
            fst (middleware en pf options ctxGET) = None \<and>
            status (snd (middleware en pf options ctxGET)) = 405 \<and>
            headers (snd (middleware en pf options ctxGET)) ''Allow'' = Some ''POST'')
       \<and> (\<forall>res. execute en sch doc (rootValue dat) ctxPOST (variables params)
                    (operationName params) (fieldResolver dat) = Inr res \<longrightarrow>
            parseQuery en dat params ctxPOST =
              (Inr \<lparr> result = res, document = Some doc \<rparr>, (response ctx)\<lparr>status := 200\<rparr>))"
proof (intro conjI impI allI)
  show pq: "parseQuery en dat params ctxGET =
           (Inl (HttpError 405
                  (''Can only perform a '' @ kind @ '' operation from a POST request.'')),
            setHeader (response ctx) ''Allow'' ''POST'')"
    using parseQuery_checked [OF assms(1-6), of ctxGET] assms(7-9) by simp
  {
    assume p: "getGraphQLParams pf (req ctx) (body ctx) = Inr params"
      and o: "parseOptions options ctxGET = Inr dat"
    let ?e = "HttpError 405 (''Can only perform a '' @ kind @ '' operation from a POST request.'')"
    have p': "getGraphQLParams pf (req ctxGET) (body ctxGET) = Inr params"
      using p assms(9) by simp
    have tc: "tryCatch en pf dat ctxGET
                = (errorsOnly [?e], (setHeader (response ctx) ''Allow'' ''POST'')\<lparr>status := statusOr500 ?e\<rparr>)"
      using p' pq by (rule tryCatch_thrown)
    have m: "middleware en pf options ctxGET =
               (None, respond en pf dat ctxGET (fst (tryCatch en pf dat ctxGET))
                        (snd (tryCatch en pf dat ctxGET)))"
      using assms(9) by (intro middleware_runs [OF _ o assms(3)]) simp
    show "fst (middleware en pf options ctxGET) = None" by (simp add: m)
    show "status (snd (middleware en pf options ctxGET)) = 405"
      by (simp add: m tc status_respond escalate_def statusOr500_def)
    show "headers (snd (middleware en pf options ctxGET)) ''Allow'' = Some ''POST''"
      by (simp add: m tc headers_respond setHeader_def)
  }
  fix res
  assume "execute en sch doc (rootValue dat) ctxPOST (variables params)
            (operationName params) (fieldResolver dat) = Inr res"
  then show "parseQuery en dat params ctxPOST =
      (Inr \<lparr> result = res, document = Some doc \<rparr>, (response ctx)\<lparr>status := 200\<rparr>)"
    using parseQuery_checked [OF assms(1-6), of ctxPOST] assms(10) by simp
qed

theorem get_runs_queries_only_witness:
  "status (snd (middleware sample_engine sample_platform
       (OptionsValue (Inr (Some (sample_options good_schema))))
       (sample_context ''GET'' ''/graphql?query=mutation M { bump }&operationName=M'' None ''''))) = 405
   \<and> headers (snd (middleware sample_engine sample_platform
       (OptionsValue (Inr (Some (sample_options good_schema))))
       (sample_context ''GET'' ''/graphql?query=mutation M { bump }&operationName=M'' None '''')))
       ''Allow'' = Some ''POST''
   \<and> parseQuery sample_engine (sample_options good_schema)
       \<lparr> query = Some ''mutation M { bump }'', variables = JNull, operationName = Some ''M'',
         raw = False \<rparr>
       (sample_context ''POST'' ''/graphql?query=mutation M { bump }&operationName=M'' None '''')
     = (Inr \<lparr> result = hello_world, document = Some [(Some ''M'', ''mutation'')] \<rparr>,
        fresh_response\<lparr>status := 200\<rparr>)"
proof -
  let ?u = "''/graphql?query=mutation M { bump }&operationName=M''"
  let ?ctx = "sample_context ''GET'' ?u None ''''"
  let ?params = "\<lparr> query = Some ''mutation M { bump }'', variables = JNull,
                   operationName = Some ''M'', raw = False \<rparr>"
  let ?dat = "sample_options good_schema"
  have g: "?ctx\<lparr>request_method := ''GET''\<rparr> = ?ctx"
    and po: "?ctx\<lparr>request_method := ''POST''\<rparr> = sample_context ''POST'' ?u None ''''"
    and r: "response ?ctx = fresh_response"
    by (simp_all add: sample_context_def)
  have p: "getGraphQLParams sample_platform (req ?ctx) (body ?ctx) = Inr ?params"
    using sample_params_mutation [of "''GET''"] by (simp add: sample_context_def)
  have ex: "execute sample_engine good_schema [(Some ''M'', ''mutation'')] (rootValue ?dat)
              (sample_context ''POST'' ?u None '''') (variables ?params) (operationName ?params)
              (fieldResolver ?dat) = Inr hello_world"
    by (simp add: engine_defs)
  from get_runs_queries_only
    [of ?params "''mutation M { bump }''" ?dat good_schema sample_engine
        "[(Some ''M'', ''mutation'')]" "''mutation''" ?ctx ?ctx "sample_context ''POST'' ?u None ''''"
        sample_platform "OptionsValue (Inr (Some ?dat))"]
  have "(getGraphQLParams sample_platform (req ?ctx) (body ?ctx) = Inr ?params \<longrightarrow>
            parseOptions (OptionsValue (Inr (Some ?dat))) ?ctx = Inr ?dat \<longrightarrow>
            fst (middleware sample_engine sample_platform (OptionsValue (Inr (Some ?dat))) ?ctx) = None \<and>
            status (snd (middleware sample_engine sample_platform (OptionsValue (Inr (Some ?dat))) ?ctx)) = 405 \<and>
            headers (snd (middleware sample_engine sample_platform (OptionsValue (Inr (Some ?dat))) ?ctx)) ''Allow'' = Some ''POST'')
       \<and> (\<forall>res. execute sample_engine good_schema [(Some ''M'', ''mutation'')] (rootValue ?dat)
                    (sample_context ''POST'' ?u None '''') (variables ?params)
                    (operationName ?params) (fieldResolver ?dat) = Inr res \<longrightarrow>
            parseQuery sample_engine ?dat ?params (sample_context ''POST'' ?u None '''') =
              (Inr \<lparr> result = res, document = Some [(Some ''M'', ''mutation'')] \<rparr>,
               (response ?ctx)\<lparr>status := 200\<rparr>))"
    by (simp add: g po engine_defs)
  with p ex r show ?thesis
    by (simp add: sample_parseOptions)
qed

section \<open>After the try block: the status and the body\<close>

lemma rbody_respond:
  "rbody (respond en pf dat ctx res resp) =
     Some (if pretty dat
           then PrettyText (JSON_stringify pf
                  (formatErrors en dat (ctx\<lparr>response := escalate res resp\<rparr>) res) 2)
           else Plain (formatErrors en dat (ctx\<lparr>response := escalate res resp\<rparr>) res))"
  by (simp add: respond_def Let_def)

lemma formatErrors_no_errors:
  "errors res = None \<Longrightarrow>
   formatErrors en dat c res = \<lparr> fdata = data res, ferrors = None, fextensions = extensions res \<rparr>"
  by (simp add: formatErrors_def)

text \<open>
  C9, as the code has it. The middleware is given a method it accepts and options that
  hold a schema; \<open>res\<close> and \<open>resp\<close> are the result and the response as the
  \<^verbatim>\<open>try\<close> and \<^verbatim>\<open>catch\<close> blocks leave them. The status of the answer is the status
  of \<open>resp\<close>, but 500 when that status is 200 and the data of \<open>res\<close> is falsy: not there,
  or null. So a status of 200 with no data field becomes 500, and a status of 200 with data
  and no errors stays, the body being the data (and the extensions, if the caller's
  function gave some).
\<close>

theorem status_escalated_once:
  assumes "request_method ctx = ''GET'' \<or> request_method ctx = ''POST''"
    and "parseOptions options ctx = Inr dat" and "schema dat = Some sch"
    and "tryCatch en pf dat ctx = (res, resp)"
    and "final = snd (middleware en pf options ctx)"
  shows "fst (middleware en pf options ctx) = None
       \<and> status final = (if status resp = 200 \<and> \<not> truthy (data res) then 500 else status resp)
       \<and> (status resp = 200 \<and> data res = JUndefined \<longrightarrow> status final = 500)
       \<and> (status resp = 200 \<and> data res = JNull \<longrightarrow> status final = 500)
       \<and> (status resp = 200 \<and> truthy (data res) \<and> errors res = None \<longrightarrow>
            status final = 200 \<and>
            rbody final =
              Some (let r = \<lparr> fdata = data res, ferrors = None, fextensions = extensions res \<rparr>
                    in if pretty dat then PrettyText (JSON_stringify pf r 2) else Plain r))"
proof -
  have m: "middleware en pf options ctx = (None, respond en pf dat ctx res resp)"
    using middleware_runs [OF assms(1,2,3), of en pf] assms(4) by simp
  then have a: "final = respond en pf dat ctx res resp"
    using assms(5) by simp
  have s: "status final = (if status resp = 200 \<and> \<not> truthy (data res) then 500 else status resp)"
    by (simp add: a status_respond escalate_def)
  have b: "errors res = None \<Longrightarrow>
           rbody final =
              Some (let r = \<lparr> fdata = data res, ferrors = None, fextensions = extensions res \<rparr>
                    in if pretty dat then PrettyText (JSON_stringify pf r 2) else Plain r)"
    by (simp add: a rbody_respond formatErrors_no_errors Let_def)
  show ?thesis
    using m s b by simp
qed

theorem status_escalated_once_witness:
  "status (snd (middleware sample_engine sample_platform
       (OptionsValue (Inr (Some (sample_options good_schema))))
       (sample_context ''GET'' ''/graphql?query={ hello }'' None ''''))) = 200
   \<and> rbody (snd (middleware sample_engine sample_platform
       (OptionsValue (Inr (Some (sample_options good_schema))))
       (sample_context ''GET'' ''/graphql?query={ hello }'' None '''')))
     = Some (Plain \<lparr> fdata = JObj [(''hello'', JStr ''world'')],
                     ferrors = None, fextensions = JUndefined \<rparr>)"
proof -
  let ?ctx = "sample_context ''GET'' ''/graphql?query={ hello }'' None ''''"
  let ?dat = "sample_options good_schema"
  let ?params = "\<lparr> query = Some ''{ hello }'', variables = JNull, operationName = None,
                   raw = False \<rparr>"
  have p: "getGraphQLParams sample_platform (req ?ctx) (body ?ctx) = Inr ?params"
    using sample_params_hello [of "''GET''"] by (simp add: sample_context_def)
  have pq: "parseQuery sample_engine ?dat ?params ?ctx
              = (Inr \<lparr> result = hello_world, document = Some [(None, ''query'')] \<rparr>,
                 fresh_response\<lparr>status := 200\<rparr>)"
    by (simp add: parseQuery_def engine_defs sample_context_def)
  have tc: "tryCatch sample_engine sample_platform ?dat ?ctx
              = (hello_world, fresh_response\<lparr>status := 200\<rparr>)"
    by (simp add: tryCatch_def tryBlock_def p pq) (simp add: sample_options_def)
  from status_escalated_once [OF _ sample_parseOptions _ tc refl, of good_schema]
  show ?thesis
    by (simp add: sample_context_def sample_options_def hello_world_def fresh_response_def)
qed

text \<open>
  C9, as the spec has it, fails: an execution that answers \<^verbatim>\<open>data: null\<close> with an
  error leaves a result that has a data field and the status 200; the answer has the
  status 500, and the data field is in its body.
\<close>

theorem null_data_is_500:
  "tryCatch sample_engine sample_platform (sample_options null_data_schema)
       (sample_context ''GET'' ''/graphql?query={ hello }'' None '''')
     = (null_data, fresh_response\<lparr>status := 200\<rparr>)
   \<and> data null_data = JNull
   \<and> status (snd (middleware sample_engine sample_platform
         (OptionsValue (Inr (Some (sample_options null_data_schema))))
         (sample_context ''GET'' ''/graphql?query={ hello }'' None ''''))) = 500
   \<and> rbody (snd (middleware sample_engine sample_platform
         (OptionsValue (Inr (Some (sample_options null_data_schema))))
         (sample_context ''GET'' ''/graphql?query={ hello }'' None '''')))
     = Some (Plain \<lparr> fdata = JNull,
                     ferrors = Some [JObj [(''message'',
                        JStr ''Cannot return null for non-nullable field Query.hello.'')]],
                     fextensions = JUndefined \<rparr>)"
proof -
  let ?ctx = "sample_context ''GET'' ''/graphql?query={ hello }'' None ''''"
  let ?dat = "sample_options null_data_schema"
  let ?opts = "OptionsValue (Inr (Some ?dat))"
  let ?params = "\<lparr> query = Some ''{ hello }'', variables = JNull, operationName = None,
                   raw = False \<rparr>"
  have p: "getGraphQLParams sample_platform (req ?ctx) (body ?ctx) = Inr ?params"
    using sample_params_hello [of "''GET''"] by (simp add: sample_context_def)
  have pq: "parseQuery sample_engine ?dat ?params ?ctx
              = (Inr \<lparr> result = null_data, document = Some [(None, ''query'')] \<rparr>,
                 fresh_response\<lparr>status := 200\<rparr>)"
    by (simp add: parseQuery_def sample_engine_def sample_parse_def sample_getOperationAST_def
        sample_options_def null_data_schema_def sample_context_def)
  have tc: "tryCatch sample_engine sample_platform ?dat ?ctx
              = (null_data, fresh_response\<lparr>status := 200\<rparr>)"
    by (simp add: tryCatch_def tryBlock_def p pq) (simp add: sample_options_def)
  have m: "middleware sample_engine sample_platform ?opts ?ctx
             = (None, respond sample_engine sample_platform ?dat ?ctx null_data
                        (fresh_response\<lparr>status := 200\<rparr>))"
    using middleware_runs [OF _ sample_parseOptions, of ?ctx ?dat null_data_schema
        sample_engine sample_platform]
    by (simp add: tc) (simp add: sample_context_def sample_options_def)
  show ?thesis
    by (simp add: tc m respond_def escalate_def formatErrors_def)
      (simp add: null_data_def sample_options_def sample_engine_def fresh_response_def)
qed

end
